theory Spec2Isabelle
  imports Main "HOL-Library.Word"
begin

section \<open>VOS container index: data model\<close>

text \<open>
  A shallow embedding of \<^verbatim>\<open>src/vos/vos_container.c\<close>. Functions of this file are
  translated statement by statement. Everything the file calls but does not define
  (the durable allocator, the ordered tree engine, the handle hash, the object-index
  collaborator, the errno translation) is either a field of the environment record
  \<open>ext\<close> or a definition whose comment starts with "Modelled from the spec".
\<close>

type_synonym byte = "8 word"
type_synonym uuid_t = "byte list"
type_synonym umem_id = nat
type_synonym daos_handle_t = nat

text \<open>Three ways a C call can end: it returns, an assertion aborts the process
  (\<^verbatim>\<open>D_ASSERT\<close>), or it dereferences an address that holds no object.\<close>

datatype 'a outcome = Normal 'a | Assert_Failed | Mem_Fault

fun obind :: "'a outcome \<Rightarrow> ('a \<Rightarrow> 'b outcome) \<Rightarrow> 'b outcome" where
  "obind (Normal x) f = f x"
| "obind Assert_Failed f = Assert_Failed"
| "obind Mem_Fault f = Mem_Fault"

text \<open>Modelled from the spec: the error kinds of \<^verbatim>\<open>daos_errno.h\<close> (absent), one
  constant per kind that \<^verbatim>\<open>vos_container.c\<close> returns. The numbers stand in for those of
  the header; the development only uses that they are positive and pairwise
  different.\<close>

definition DER_ERR_BASE :: int where "DER_ERR_BASE = 2000"
definition DER_INVAL :: int where "DER_INVAL = DER_ERR_BASE + 3"
definition DER_EXIST :: int where "DER_EXIST = DER_ERR_BASE + 4"
definition DER_NONEXIST :: int where "DER_NONEXIST = DER_ERR_BASE + 5"
definition DER_NOSPACE :: int where "DER_NOSPACE = DER_ERR_BASE + 7"
definition DER_NOMEM :: int where "DER_NOMEM = DER_ERR_BASE + 9"
definition DER_BUSY :: int where "DER_BUSY = DER_ERR_BASE + 12"

text \<open>The two errno values handed to \<^verbatim>\<open>pmemobj_tx_abort\<close>.\<close>

definition ENOMEM :: int where "ENOMEM = 12"
definition EFAULT :: int where "EFAULT = 14"

definition UMMID_NULL :: umem_id where "UMMID_NULL = 0"

text \<open>\<^verbatim>\<open>sizeof(struct daos_uuid)\<close>: a 16-byte array. \<^verbatim>\<open>sizeof(struct vc_val_buf)\<close>:
  two pointers on the 64-bit targets of the engine.\<close>

definition sizeof_daos_uuid :: nat where "sizeof_daos_uuid = 16"
definition sizeof_vc_val_buf :: nat where "sizeof_vc_val_buf = 16"

text \<open>\<^verbatim>\<open>uuid_copy\<close> and \<^verbatim>\<open>uuid_clear\<close> of libuuid: sixteen bytes are copied, or set to
  zero.\<close>

definition uuid_copy :: "uuid_t \<Rightarrow> uuid_t" where
  "uuid_copy src = take sizeof_daos_uuid src"

definition uuid_clear :: uuid_t where
  "uuid_clear = replicate sizeof_daos_uuid 0"

text \<open>\<^verbatim>\<open>daos_iov_t\<close>: a buffer, its capacity and the length in use.\<close>

record 'a daos_iov =
  iov_buf :: 'a
  iov_buf_len :: nat
  iov_len :: nat

definition daos_iov_set :: "'a \<Rightarrow> nat \<Rightarrow> 'a daos_iov" where
  "daos_iov_set buf sz = \<lparr>iov_buf = buf, iov_buf_len = sz, iov_len = sz\<rparr>"

text \<open>\<^verbatim>\<open>struct vc_val_buf\<close>: the wrapper buffer holding direct pointers.\<close>

record vc_val_buf =
  vc_co :: umem_id
  vc_vpool :: daos_handle_t

text \<open>The durable objects: \<^verbatim>\<open>struct vos_container\<close> and \<^verbatim>\<open>struct vos_object_index\<close>.
  The object index is opaque to this file; its content is a number that the
  object-index collaborator reads and writes.\<close>

record vos_container =
  vc_id :: uuid_t
  vc_obtable :: umem_id
  vc_info :: nat

record vos_object_index =
  obtable :: nat

datatype pobj = PContainer vos_container | PObjIndex vos_object_index

definition zero_container :: vos_container where
  "zero_container = \<lparr>vc_id = replicate sizeof_daos_uuid 0, vc_obtable = UMMID_NULL, vc_info = 0\<rparr>"

definition zero_object_index :: vos_object_index where
  "zero_object_index = \<lparr>obtable = 0\<rparr>"

text \<open>The calls made against one pool, in program order. The log is ghost state: no
  function reads it; it is what the ordering statements below are about.\<close>

datatype call =
    Call_znew umem_id
  | Call_free umem_id
  | Call_oi_create umem_id
  | Call_oi_destroy umem_id
  | Call_dbtree_lookup "byte list"
  | Call_dbtree_update "byte list"
  | Call_dbtree_delete "byte list"
  | Call_tx_begin
  | Call_tx_abort int
  | Call_tx_commit

text \<open>Modelled from the spec: the durable allocator (\<^verbatim>\<open>daos/mem.h\<close>, absent), with
  the interface "alloc(size) gives an address or OutOfMemory, free(address)". Addresses
  are handed out by a bump pointer and are never \<open>UMMID_NULL\<close>; \<open>um_room\<close> is the
  number of allocations that still succeed.\<close>

record umem_instance =
  um_heap :: "umem_id \<rightharpoonup> pobj"
  um_brk :: nat
  um_room :: nat
  um_log :: "call list"

definition umem_znew :: "umem_instance \<Rightarrow> pobj \<Rightarrow> umem_id \<times> umem_instance" where
  "umem_znew umm z =
     (if um_room umm = 0 then (UMMID_NULL, umm)
      else let a = Suc (um_brk umm)
           in (a, umm\<lparr>um_heap := (um_heap umm)(a \<mapsto> z), um_brk := a,
                      um_room := um_room umm - 1,
                      um_log := um_log umm @ [Call_znew a]\<rparr>))"

definition umem_free :: "umem_instance \<Rightarrow> umem_id \<Rightarrow> umem_instance outcome" where
  "umem_free umm a =
     (case um_heap umm a of
        None \<Rightarrow> Mem_Fault
      | Some _ \<Rightarrow> Normal (umm\<lparr>um_heap := (um_heap umm)(a := None),
                               um_log := um_log umm @ [Call_free a]\<rparr>))"

text \<open>\<^verbatim>\<open>struct btr_instance\<close> and \<^verbatim>\<open>struct btr_record\<close>, as far as the callbacks use
  them.\<close>

record btr_instance =
  ti_umm :: umem_instance

record btr_record =
  rec_mmid :: umem_id
  rec_hkey :: "byte list"

text \<open>The collaborators outside this file whose behaviour the callbacks and the
  lifecycle operations depend on. \<open>vos_oi_create\<close> and \<open>vos_oi_destroy\<close> work on the
  object index in place and return a code; \<open>umem_tx_errno err e\<close> is
  \<^verbatim>\<open>umem_tx_errno(err)\<close> in a transaction whose recorded abort errno is \<open>e\<close>;
  \<open>rc_in_onabort old new\<close> is the value that a \<^verbatim>\<open>TX_ONABORT\<close> block reads from the local
  \<^verbatim>\<open>rc\<close> when \<^verbatim>\<open>rc\<close> was \<open>old\<close> at \<^verbatim>\<open>TX_BEGIN\<close> and was assigned \<open>new\<close> in the
  transaction body before \<^verbatim>\<open>pmemobj_tx_abort\<close> jumped back (\<^verbatim>\<open>rc\<close> is not volatile, so
  C leaves that value to the build);
  \<open>d_alloc_ok\<close> tells whether \<^verbatim>\<open>D_ALLOC_PTR\<close> succeeds; \<open>dbtree_open_inplace_rc\<close> is
  the code \<^verbatim>\<open>dbtree_open_inplace\<close> returns.\<close>

record ext =
  vos_oi_create :: "daos_handle_t \<Rightarrow> vos_object_index \<Rightarrow> int \<times> vos_object_index"
  vos_oi_destroy :: "daos_handle_t \<Rightarrow> vos_object_index \<Rightarrow> int \<times> vos_object_index"
  umem_tx_errno :: "int \<Rightarrow> int \<Rightarrow> int"
  rc_in_onabort :: "int \<Rightarrow> int \<Rightarrow> int"
  d_alloc_ok :: bool
  dbtree_open_inplace_rc :: int

section \<open>The record callbacks (\<^verbatim>\<open>vct_ops\<close>)\<close>

definition vc_hkey_size :: "btr_instance \<Rightarrow> nat" where
  "vc_hkey_size tins = sizeof_daos_uuid"

text \<open>\<^verbatim>\<open>vc_hkey_gen\<close>: the assertion on the key length, then \<^verbatim>\<open>memcpy\<close> of
  \<open>iov_len\<close> bytes. The function returns \<^verbatim>\<open>void\<close>: its result is the digest buffer.\<close>

definition vc_hkey_gen :: "btr_instance \<Rightarrow> byte list daos_iov \<Rightarrow> byte list outcome" where
  "vc_hkey_gen tins key_iov =
     (if iov_len key_iov \<noteq> sizeof_daos_uuid then Assert_Failed
      else Normal (take (iov_len key_iov) (iov_buf key_iov)))"

text \<open>Reading through a typed address (\<^verbatim>\<open>umem_id2ptr_typed\<close> followed by a field
  access): the object stored there, a fault when the address holds no object of that
  type.\<close>

definition container_at :: "umem_instance \<Rightarrow> umem_id \<Rightarrow> vos_container outcome" where
  "container_at umm a =
     (case um_heap umm a of Some (PContainer c) \<Rightarrow> Normal c | _ \<Rightarrow> Mem_Fault)"

definition object_index_at :: "umem_instance \<Rightarrow> umem_id \<Rightarrow> vos_object_index outcome" where
  "object_index_at umm a =
     (case um_heap umm a of Some (PObjIndex oi) \<Rightarrow> Normal oi | _ \<Rightarrow> Mem_Fault)"

definition vc_rec_free :: "btr_instance \<Rightarrow> btr_record \<Rightarrow> (int \<times> btr_instance) outcome" where
  "vc_rec_free tins rec =
     (let umm = ti_umm tins; vc_cid = rec_mmid rec
      in if vc_cid = UMMID_NULL then Normal (- DER_NONEXIST, tins)
         else obind (container_at umm vc_cid) (\<lambda>vc_rec.
              obind (if vc_obtable vc_rec \<noteq> UMMID_NULL
                     then umem_free umm (vc_obtable vc_rec) else Normal umm) (\<lambda>umm1.
              obind (umem_free umm1 vc_cid) (\<lambda>umm2.
              Normal (0, tins\<lparr>ti_umm := umm2\<rparr>)))))"

text \<open>The \<^verbatim>\<open>exit:\<close> label of \<^verbatim>\<open>vc_rec_alloc\<close>: on a non-zero code the record is handed
  to \<^verbatim>\<open>vc_rec_free\<close>, whose own return code is dropped.\<close>

definition vc_rec_alloc_exit ::
  "int \<Rightarrow> btr_instance \<Rightarrow> vc_val_buf daos_iov \<Rightarrow> btr_record \<Rightarrow>
   (int \<times> btr_instance \<times> vc_val_buf daos_iov \<times> btr_record) outcome" where
  "vc_rec_alloc_exit rc tins val_iov rec =
     (if rc \<noteq> 0
      then obind (vc_rec_free tins rec) (\<lambda>(_, tins'). Normal (rc, tins', val_iov, rec))
      else Normal (rc, tins, val_iov, rec))"

definition set_container :: "umem_instance \<Rightarrow> umem_id \<Rightarrow> vos_container \<Rightarrow> umem_instance" where
  "set_container umm a c = umm\<lparr>um_heap := (um_heap umm)(a \<mapsto> PContainer c)\<rparr>"

definition set_object_index ::
  "umem_instance \<Rightarrow> umem_id \<Rightarrow> vos_object_index \<Rightarrow> umem_instance" where
  "set_object_index umm a oi = umm\<lparr>um_heap := (um_heap umm)(a \<mapsto> PObjIndex oi)\<rparr>"

definition log_call :: "call \<Rightarrow> umem_instance \<Rightarrow> umem_instance" where
  "log_call c umm = umm\<lparr>um_log := um_log umm @ [c]\<rparr>"

definition vc_rec_alloc ::
  "ext \<Rightarrow> btr_instance \<Rightarrow> byte list daos_iov \<Rightarrow> vc_val_buf daos_iov \<Rightarrow> btr_record \<Rightarrow>
   (int \<times> btr_instance \<times> vc_val_buf daos_iov \<times> btr_record) outcome" where
  "vc_rec_alloc x tins key_iov val_iov rec =
     (if iov_len key_iov \<noteq> sizeof_daos_uuid then Assert_Failed
      else
        let u_key = iov_buf key_iov;
            (vc_cid, umm1) = umem_znew (ti_umm tins) (PContainer zero_container)
        in if vc_cid = UMMID_NULL then Normal (- DER_NOMEM, tins, val_iov, rec)
           else
             let vc_rec = zero_container\<lparr>vc_id := uuid_copy u_key\<rparr>;
                 val_iov1 = val_iov\<lparr>iov_buf := (iov_buf val_iov)\<lparr>vc_co := vc_cid\<rparr>\<rparr>;
                 (ob, umm2) = umem_znew (set_container umm1 vc_cid vc_rec)
                                        (PObjIndex zero_object_index);
                 umm3 = set_container umm2 vc_cid (vc_rec\<lparr>vc_obtable := ob\<rparr>)
             in if ob = UMMID_NULL
                then vc_rec_alloc_exit (- DER_NOMEM) (tins\<lparr>ti_umm := umm3\<rparr>) val_iov1 rec
                else
                  obind (object_index_at umm3 ob) (\<lambda>vc_oi.
                    let (rc, vc_oi') = vos_oi_create x (vc_vpool (iov_buf val_iov1)) vc_oi;
                        umm4 = log_call (Call_oi_create ob) (set_object_index umm3 ob vc_oi')
                    in if rc \<noteq> 0
                       then vc_rec_alloc_exit rc (tins\<lparr>ti_umm := umm4\<rparr>) val_iov1 rec
                       else vc_rec_alloc_exit rc (tins\<lparr>ti_umm := umm4\<rparr>) val_iov1
                              (rec\<lparr>rec_mmid := vc_cid\<rparr>)))"

text \<open>\<^verbatim>\<open>vc_rec_fetch\<close>: \<^verbatim>\<open>umem_id2ptr\<close> turns the address of the record into a pointer
  without reading the record; the pointer is the address here.\<close>

definition vc_rec_fetch ::
  "btr_instance \<Rightarrow> btr_record \<Rightarrow> byte list daos_iov \<Rightarrow> vc_val_buf daos_iov \<Rightarrow>
   int \<times> vc_val_buf daos_iov" where
  "vc_rec_fetch tins rec key_iov val_iov =
     (let vc_rec = rec_mmid rec;
          vc_val_buf = (iov_buf val_iov)\<lparr>vc_co := vc_rec\<rparr>
      in (0, val_iov\<lparr>iov_buf := vc_val_buf, iov_len := sizeof_vc_val_buf\<rparr>))"

definition vc_rec_update ::
  "btr_instance \<Rightarrow> btr_record \<Rightarrow> byte list daos_iov \<Rightarrow> vc_val_buf daos_iov \<Rightarrow> int" where
  "vc_rec_update tins rec key val = 0"

section \<open>The pool, the container index tree and the handle hash\<close>

text \<open>\<^verbatim>\<open>struct vos_pool\<close>: the durable memory of the pool and the container index tree
  opened on it. The tree is kept as the sequence of its records in key order.\<close>

record vos_pool =
  vp_umm :: umem_instance
  vp_cont_ith :: "btr_record list"

text \<open>\<^verbatim>\<open>struct vc_hdl\<close>, the DRAM container handle. Its fields are \<open>vc_id\<close>, \<open>vc_pool\<close>,
  \<open>vc_co\<close>, \<open>vc_obj_table\<close>, \<open>vc_btr_hdl\<close> and the hash link with its reference count;
  the prefix keeps them apart from the fields of the durable container.\<close>

record vc_hdl =
  hdl_vc_id :: uuid_t
  hdl_vc_pool :: daos_handle_t
  hdl_vc_co :: umem_id
  hdl_vc_obj_table :: umem_id
  hdl_vc_btr_hdl :: umem_id
  hdl_ref :: nat

text \<open>The state the public operations work on: the pools by handle, the DRAM
  container handles by address and the UUID hash from identifier to handle address.\<close>

record vos_state =
  pools :: "daos_handle_t \<rightharpoonup> vos_pool"
  hdl_mem :: "nat \<rightharpoonup> vc_hdl"
  hdl_brk :: nat
  uuid_hash :: "uuid_t \<rightharpoonup> nat"

text \<open>Modelled from the spec: pool resolution (\<^verbatim>\<open>vos_hdl2pool\<close>, absent), "given an
  opaque pool handle, resolve to the pool object", \<open>None\<close> standing for \<^verbatim>\<open>NULL\<close>; and
  \<^verbatim>\<open>vos_co2hdl\<close>, the handle whose cookie is the address of the container handle.\<close>

definition vos_hdl2pool :: "vos_state \<Rightarrow> daos_handle_t \<Rightarrow> vos_pool option" where
  "vos_hdl2pool st poh = pools st poh"

definition set_pool :: "vos_state \<Rightarrow> daos_handle_t \<Rightarrow> vos_pool \<Rightarrow> vos_state" where
  "set_pool st poh vpool = st\<lparr>pools := (pools st)(poh \<mapsto> vpool)\<rparr>"

definition vos_co2hdl :: "nat \<Rightarrow> daos_handle_t" where
  "vos_co2hdl co_hdl = co_hdl"

text \<open>Modelled from the spec: the handle cache (\<^verbatim>\<open>vos_hhash\<close>, absent). "lookup(id)
  returns a new reference (increments ref-count) to the matching handle if present",
  otherwise NotFound; "release decrements the reference count"; "insert registers a
  newly constructed handle; fails if one already exists"; the free operation tears
  the handle down. A lookup whose hash entry points at freed memory faults; a release
  on a handle that holds no reference cannot decrement and stops at the assertion.\<close>

definition vos_co_lookup_handle ::
  "vos_state \<Rightarrow> uuid_t \<Rightarrow> (int \<times> nat option \<times> vos_state) outcome" where
  "vos_co_lookup_handle st ukey =
     (case uuid_hash st ukey of
        None \<Rightarrow> Normal (- DER_NONEXIST, None, st)
      | Some p \<Rightarrow>
          (case hdl_mem st p of
             None \<Rightarrow> Mem_Fault
           | Some h \<Rightarrow>
               Normal (0, Some p,
                       st\<lparr>hdl_mem := (hdl_mem st)(p \<mapsto> h\<lparr>hdl_ref := hdl_ref h + 1\<rparr>)\<rparr>)))"

definition vos_co_putref_handle :: "vos_state \<Rightarrow> nat option \<Rightarrow> vos_state outcome" where
  "vos_co_putref_handle st co_hdl =
     (case co_hdl of
        None \<Rightarrow> Mem_Fault
      | Some p \<Rightarrow>
          (case hdl_mem st p of
             None \<Rightarrow> Mem_Fault
           | Some h \<Rightarrow>
               if hdl_ref h = 0 then Assert_Failed
               else Normal (st\<lparr>hdl_mem := (hdl_mem st)(p \<mapsto> h\<lparr>hdl_ref := hdl_ref h - 1\<rparr>)\<rparr>)))"

definition vos_co_insert_handle ::
  "vos_state \<Rightarrow> nat \<Rightarrow> uuid_t \<Rightarrow> (int \<times> vos_state \<times> daos_handle_t option) outcome" where
  "vos_co_insert_handle st co_hdl ukey =
     (case uuid_hash st ukey of
        Some _ \<Rightarrow> Normal (- DER_EXIST, st, None)
      | None \<Rightarrow>
          (case hdl_mem st co_hdl of
             None \<Rightarrow> Mem_Fault
           | Some h \<Rightarrow>
               Normal (0,
                       st\<lparr>hdl_mem := (hdl_mem st)(co_hdl \<mapsto> h\<lparr>hdl_ref := hdl_ref h + 1\<rparr>),
                          uuid_hash := (uuid_hash st)(ukey \<mapsto> co_hdl)\<rparr>,
                       Some (vos_co2hdl co_hdl))))"

definition vos_co_uhash_free :: "vos_state \<Rightarrow> nat \<Rightarrow> vos_state" where
  "vos_co_uhash_free st co_hdl = st\<lparr>hdl_mem := (hdl_mem st)(co_hdl := None)\<rparr>"

text \<open>\<^verbatim>\<open>D_ALLOC_PTR(co_hdl)\<close>: a zeroed handle at a new DRAM address, or \<open>None\<close> for
  \<^verbatim>\<open>NULL\<close>.\<close>

definition zero_hdl :: vc_hdl where
  "zero_hdl = \<lparr>hdl_vc_id = replicate sizeof_daos_uuid 0, hdl_vc_pool = 0, hdl_vc_co = UMMID_NULL,
               hdl_vc_obj_table = UMMID_NULL, hdl_vc_btr_hdl = 0, hdl_ref = 0\<rparr>"

definition d_alloc_hdl :: "ext \<Rightarrow> vos_state \<Rightarrow> (nat \<times> vos_state) option" where
  "d_alloc_hdl x st =
     (if d_alloc_ok x
      then let p = Suc (hdl_brk st)
           in Some (p, st\<lparr>hdl_mem := (hdl_mem st)(p \<mapsto> zero_hdl), hdl_brk := p\<rparr>)
      else None)"

text \<open>Modelled from the spec: the ordered tree engine (\<^verbatim>\<open>daos/btree.h\<close>, absent), with
  the interface "lookup(key) gives the value or NotFound, insert(key, plugin-args),
  delete(key) gives ok or NotFound, iterate(anchor?)", keyed by the digest that
  \<open>vc_hkey_gen\<close> produces and calling the record callbacks of this file. Digests are
  compared bytewise, as \<^verbatim>\<open>memcmp\<close> does. A record that is about to be inserted
  reaches \<open>vc_rec_alloc\<close> with its digest set and a null \<open>rec_mmid\<close>.\<close>

fun hkey_cmp :: "byte list \<Rightarrow> byte list \<Rightarrow> int" where
  "hkey_cmp (a # as) (b # bs) =
     (if a < b then - 1 else if b < a then 1 else hkey_cmp as bs)"
| "hkey_cmp _ _ = 0"

fun btr_find :: "byte list \<Rightarrow> btr_record list \<Rightarrow> btr_record option" where
  "btr_find h [] = None"
| "btr_find h (r # rs) = (if rec_hkey r = h then Some r else btr_find h rs)"

fun btr_insert :: "btr_record \<Rightarrow> btr_record list \<Rightarrow> btr_record list" where
  "btr_insert r [] = [r]"
| "btr_insert r (q # qs) =
     (if hkey_cmp (rec_hkey r) (rec_hkey q) < 0 then r # q # qs else q # btr_insert r qs)"

definition btr_remove :: "byte list \<Rightarrow> btr_record list \<Rightarrow> btr_record list" where
  "btr_remove h rs = filter (\<lambda>r. rec_hkey r \<noteq> h) rs"

definition pool_log :: "call \<Rightarrow> vos_pool \<Rightarrow> vos_pool" where
  "pool_log c vpool = vpool\<lparr>vp_umm := log_call c (vp_umm vpool)\<rparr>"

definition dbtree_lookup ::
  "vos_pool \<Rightarrow> byte list daos_iov \<Rightarrow> vc_val_buf daos_iov \<Rightarrow>
   (int \<times> vos_pool \<times> vc_val_buf daos_iov) outcome" where
  "dbtree_lookup vpool key val =
     obind (vc_hkey_gen \<lparr>ti_umm = vp_umm vpool\<rparr> key) (\<lambda>hkey.
       let vpool1 = pool_log (Call_dbtree_lookup hkey) vpool
       in case btr_find hkey (vp_cont_ith vpool1) of
            None \<Rightarrow> Normal (- DER_NONEXIST, vpool1, val)
          | Some rec \<Rightarrow>
              let (rc, val') = vc_rec_fetch \<lparr>ti_umm = vp_umm vpool1\<rparr> rec key val
              in Normal (rc, vpool1, val'))"

definition dbtree_update ::
  "ext \<Rightarrow> vos_pool \<Rightarrow> byte list daos_iov \<Rightarrow> vc_val_buf daos_iov \<Rightarrow>
   (int \<times> vos_pool \<times> vc_val_buf daos_iov) outcome" where
  "dbtree_update x vpool key val =
     obind (vc_hkey_gen \<lparr>ti_umm = vp_umm vpool\<rparr> key) (\<lambda>hkey.
       let vpool1 = pool_log (Call_dbtree_update hkey) vpool
       in case btr_find hkey (vp_cont_ith vpool1) of
            Some rec \<Rightarrow>
              Normal (vc_rec_update \<lparr>ti_umm = vp_umm vpool1\<rparr> rec key val, vpool1, val)
          | None \<Rightarrow>
              obind (vc_rec_alloc x \<lparr>ti_umm = vp_umm vpool1\<rparr> key val
                       \<lparr>rec_mmid = UMMID_NULL, rec_hkey = hkey\<rparr>)
                (\<lambda>(rc, tins', val', rec').
                   if rc \<noteq> 0 then Normal (rc, vpool1\<lparr>vp_umm := ti_umm tins'\<rparr>, val')
                   else Normal (0, vpool1\<lparr>vp_umm := ti_umm tins',
                                         vp_cont_ith := btr_insert rec' (vp_cont_ith vpool1)\<rparr>,
                                val')))"

definition dbtree_delete ::
  "vos_pool \<Rightarrow> byte list daos_iov \<Rightarrow> (int \<times> vos_pool) outcome" where
  "dbtree_delete vpool key =
     obind (vc_hkey_gen \<lparr>ti_umm = vp_umm vpool\<rparr> key) (\<lambda>hkey.
       let vpool1 = pool_log (Call_dbtree_delete hkey) vpool
       in case btr_find hkey (vp_cont_ith vpool1) of
            None \<Rightarrow> Normal (- DER_NONEXIST, vpool1)
          | Some rec \<Rightarrow>
              obind (vc_rec_free \<lparr>ti_umm = vp_umm vpool1\<rparr> rec) (\<lambda>(rc, tins').
                if rc \<noteq> 0 then Normal (rc, vpool1\<lparr>vp_umm := ti_umm tins'\<rparr>)
                else Normal (0, vpool1\<lparr>vp_umm := ti_umm tins',
                                      vp_cont_ith := btr_remove hkey (vp_cont_ith vpool1)\<rparr>)))"

text \<open>Modelled from the spec: the transaction primitives of the durable allocator,
  "begin, commit, abort(cause)", where "all writes inside an aborted transaction are
  invisible after abort". \<open>tx_abort snap cur e\<close> restores the durable content of the
  pool as it was at \<open>tx_begin\<close>; the log of calls is not durable content and goes on.\<close>

definition tx_begin :: "vos_pool \<Rightarrow> vos_pool" where
  "tx_begin vpool = pool_log Call_tx_begin vpool"

definition tx_commit :: "vos_pool \<Rightarrow> vos_pool" where
  "tx_commit vpool = pool_log Call_tx_commit vpool"

definition tx_abort :: "vos_pool \<Rightarrow> vos_pool \<Rightarrow> int \<Rightarrow> vos_pool" where
  "tx_abort snap cur e =
     snap\<lparr>vp_umm := (vp_umm snap)\<lparr>um_log := um_log (vp_umm cur) @ [Call_tx_abort e]\<rparr>\<rparr>"

section \<open>Container lifecycle operations\<close>

definition vos_co_tree_lookup ::
  "vos_pool \<Rightarrow> uuid_t \<Rightarrow> vc_val_buf \<Rightarrow> (int \<times> vos_pool \<times> vc_val_buf) outcome" where
  "vos_co_tree_lookup vpool ukey sbuf =
     (let key = daos_iov_set ukey sizeof_daos_uuid;
          val = daos_iov_set sbuf sizeof_vc_val_buf
      in obind (dbtree_lookup vpool key val) (\<lambda>(rc, vpool', val').
           Normal (rc, vpool', iov_buf val')))"

text \<open>\<^verbatim>\<open>vos_co_create\<close>. When the insert fails the body calls
  \<^verbatim>\<open>pmemobj_tx_abort(ENOMEM)\<close>, which jumps to the abort handler; the handler hands what
  it reads from \<^verbatim>\<open>rc\<close> to \<^verbatim>\<open>umem_tx_errno\<close>. At \<^verbatim>\<open>TX_BEGIN\<close> the local held the code of
  the lookup.\<close>

definition vos_co_create ::
  "ext \<Rightarrow> vos_state \<Rightarrow> daos_handle_t \<Rightarrow> uuid_t \<Rightarrow> (int \<times> vos_state) outcome" where
  "vos_co_create x st poh co_uuid =
     (case vos_hdl2pool st poh of
        None \<Rightarrow> Normal (- DER_INVAL, st)
      | Some vpool \<Rightarrow>
          let ukey = uuid_copy co_uuid;
              s_buf = \<lparr>vc_co = UMMID_NULL, vc_vpool = poh\<rparr>
          in obind (vos_co_tree_lookup vpool ukey s_buf) (\<lambda>(rc0, vpool1, s_buf1).
               if rc0 = 0 then Normal (- DER_EXIST, set_pool st poh vpool1)
               else
                 let key = daos_iov_set ukey sizeof_daos_uuid;
                     val = daos_iov_set s_buf1 sizeof_vc_val_buf
                 in obind (dbtree_update x (tx_begin vpool1) key val) (\<lambda>(rc, vpool2, val').
                      if rc \<noteq> 0
                      then Normal (umem_tx_errno x (rc_in_onabort x rc0 rc) ENOMEM,
                                   set_pool st poh (tx_abort vpool1 vpool2 ENOMEM))
                      else Normal (rc, set_pool st poh (tx_commit vpool2)))))"

text \<open>The \<^verbatim>\<open>exit:\<close> label of \<^verbatim>\<open>vos_co_open\<close>: a handle that was allocated is freed when
  the code is not zero.\<close>

definition vos_co_open_exit ::
  "int \<Rightarrow> nat option \<Rightarrow> vos_state \<Rightarrow> daos_handle_t option \<Rightarrow>
   int \<times> vos_state \<times> daos_handle_t option" where
  "vos_co_open_exit rc co_hdl st coh =
     (case co_hdl of
        Some p \<Rightarrow> if rc \<noteq> 0 then (rc, vos_co_uhash_free st p, coh) else (rc, st, coh)
      | None \<Rightarrow> (rc, st, coh))"

text \<open>\<^verbatim>\<open>vos_co_open\<close>. The third component of the result is what was stored through
  \<^verbatim>\<open>coh\<close>, \<open>None\<close> when nothing was. The local \<^verbatim>\<open>s_buf\<close> starts zeroed; none of its
  fields is read before \<open>vc_rec_fetch\<close> has written it.\<close>

definition vos_co_open ::
  "ext \<Rightarrow> vos_state \<Rightarrow> daos_handle_t \<Rightarrow> uuid_t \<Rightarrow>
   (int \<times> vos_state \<times> daos_handle_t option) outcome" where
  "vos_co_open x st poh co_uuid =
     (case vos_hdl2pool st poh of
        None \<Rightarrow> Normal (- DER_INVAL, st, None)
      | Some vpool \<Rightarrow>
          let ukey = uuid_copy co_uuid;
              s_buf = \<lparr>vc_co = UMMID_NULL, vc_vpool = 0\<rparr>
          in obind (vos_co_lookup_handle st ukey) (\<lambda>(rc, co_hdl, st1).
               if rc = 0
               then Normal (vos_co_open_exit rc co_hdl st1 (map_option vos_co2hdl co_hdl))
               else
                 obind (vos_co_tree_lookup vpool ukey s_buf) (\<lambda>(rc, vpool1, s_buf1).
                   let st2 = set_pool st1 poh vpool1
                   in if rc \<noteq> 0 then Normal (vos_co_open_exit rc co_hdl st2 None)
                      else
                        case d_alloc_hdl x st2 of
                          None \<Rightarrow> Normal (vos_co_open_exit (- DER_NOSPACE) None st2 None)
                        | Some (p, st3) \<Rightarrow>
                            obind (container_at (vp_umm vpool1) (vc_co s_buf1)) (\<lambda>co.
                            obind (object_index_at (vp_umm vpool1) (vc_obtable co)) (\<lambda>oi.
                              let h = zero_hdl\<lparr>hdl_vc_id := uuid_copy co_uuid,
                                               hdl_vc_pool := poh,
                                               hdl_vc_co := vc_co s_buf1,
                                               hdl_vc_obj_table := vc_obtable co\<rparr>;
                                  rc = dbtree_open_inplace_rc x
                              in if rc \<noteq> 0
                                 then Normal (vos_co_open_exit rc (Some p)
                                                (st3\<lparr>hdl_mem := (hdl_mem st3)(p \<mapsto> h)\<rparr>) None)
                                 else
                                   let h1 = h\<lparr>hdl_vc_btr_hdl := vc_obtable co\<rparr>;
                                       st4 = st3\<lparr>hdl_mem := (hdl_mem st3)(p \<mapsto> h1)\<rparr>
                                   in obind (vos_co_insert_handle st4 p ukey)
                                        (\<lambda>(rc, st5, coh).
                                           Normal (vos_co_open_exit rc (Some p) st5 coh)))))))"

text \<open>\<^verbatim>\<open>vos_co_destroy\<close>. Inside the transaction a failing \<open>vos_oi_destroy\<close> aborts with
  \<^verbatim>\<open>EFAULT\<close> and control goes to the abort handler, which hands what it reads from
  \<^verbatim>\<open>rc\<close> to \<^verbatim>\<open>umem_tx_errno\<close> (at \<^verbatim>\<open>TX_BEGIN\<close> the local held the code of the tree
  lookup); otherwise \<open>dbtree_delete\<close> runs and the transaction ends with its code.\<close>

definition vos_co_destroy ::
  "ext \<Rightarrow> vos_state \<Rightarrow> daos_handle_t \<Rightarrow> uuid_t \<Rightarrow> (int \<times> vos_state) outcome" where
  "vos_co_destroy x st poh co_uuid =
     (let ukey = uuid_copy co_uuid;
          s_buf = \<lparr>vc_co = UMMID_NULL, vc_vpool = 0\<rparr>
      in case vos_hdl2pool st poh of
           None \<Rightarrow> Normal (- DER_INVAL, st)
         | Some vpool \<Rightarrow>
             obind (vos_co_lookup_handle st ukey) (\<lambda>(rc, co_hdl, st1).
               if rc \<noteq> - DER_NONEXIST
               then obind (vos_co_putref_handle st1 co_hdl) (\<lambda>st2. Normal (- DER_BUSY, st2))
               else
                 obind (vos_co_tree_lookup vpool ukey s_buf) (\<lambda>(rc0, vpool1, s_buf1).
                   if rc0 \<noteq> 0 then Normal (rc0, set_pool st1 poh vpool1)
                   else
                     let del_key = daos_iov_set ukey sizeof_daos_uuid;
                         vpool2 = tx_begin vpool1
                     in obind (container_at (vp_umm vpool2) (vc_co s_buf1)) (\<lambda>co.
                        obind (object_index_at (vp_umm vpool2) (vc_obtable co)) (\<lambda>vc_oi.
                          let (rc, vc_oi') = vos_oi_destroy x poh vc_oi;
                              vpool3 = pool_log (Call_oi_destroy (vc_obtable co))
                                         (vpool2\<lparr>vp_umm := set_object_index (vp_umm vpool2)
                                                              (vc_obtable co) vc_oi'\<rparr>)
                          in if rc \<noteq> 0
                             then Normal (umem_tx_errno x (rc_in_onabort x rc0 rc) EFAULT,
                                          set_pool st1 poh (tx_abort vpool1 vpool3 EFAULT))
                             else
                               obind (dbtree_delete vpool3 del_key) (\<lambda>(rc, vpool4).
                                 Normal (rc, set_pool st1 poh (tx_commit vpool4))))))))"

section \<open>The container iterator\<close>

datatype vos_iter_type_t =
  VOS_ITER_NONE | VOS_ITER_COUUID | VOS_ITER_OBJ | VOS_ITER_DKEY | VOS_ITER_AKEY | VOS_ITER_RECX

datatype dbtree_probe_opc_t =
  BTR_PROBE_FIRST | BTR_PROBE_LAST | BTR_PROBE_EQ | BTR_PROBE_GE | BTR_PROBE_LE

text \<open>\<^verbatim>\<open>struct vos_co_iter\<close>: the type tag of the embedded \<^verbatim>\<open>vos_iterator\<close>, the tree
  iterator behind \<^verbatim>\<open>cot_hdl\<close> (the position of the current record in key order,
  \<open>None\<close> while the cursor is not on a record) and the pool.\<close>

record vos_co_iter =
  it_type :: vos_iter_type_t
  cot_hdl :: "nat option"
  cot_pool :: daos_handle_t

record vos_iter_entry_t =
  ie_couuid :: uuid_t

text \<open>Modelled from the spec: the iteration of the ordered tree engine (absent).
  A probe "positions the cursor at the first entry", or at the first entry that is
  greater than or equal to the digest held by the anchor; it reports NotFound and
  leaves the cursor off the tree when there is no such entry. A fetch at the cursor
  runs the fetch callback and stores the current digest in the anchor.\<close>

fun btr_first_index :: "(btr_record \<Rightarrow> bool) \<Rightarrow> btr_record list \<Rightarrow> nat option" where
  "btr_first_index P [] = None"
| "btr_first_index P (r # rs) =
     (if P r then Some 0 else map_option Suc (btr_first_index P rs))"

definition btr_last_index :: "(btr_record \<Rightarrow> bool) \<Rightarrow> btr_record list \<Rightarrow> nat option" where
  "btr_last_index P rs =
     map_option (\<lambda>i. length rs - 1 - i) (btr_first_index P (rev rs))"

definition dbtree_iter_probe ::
  "btr_record list \<Rightarrow> dbtree_probe_opc_t \<Rightarrow> byte list option \<Rightarrow> byte list option \<Rightarrow>
   int \<times> nat option" where
  "dbtree_iter_probe tree opc key anchor =
     (let hkey = (case key of Some k \<Rightarrow> Some k | None \<Rightarrow> anchor);
          found = (case opc of
                     BTR_PROBE_FIRST \<Rightarrow> btr_first_index (\<lambda>r. True) tree
                   | BTR_PROBE_LAST \<Rightarrow> btr_last_index (\<lambda>r. True) tree
                   | BTR_PROBE_EQ \<Rightarrow>
                       (case hkey of None \<Rightarrow> None
                        | Some h \<Rightarrow> btr_first_index (\<lambda>r. hkey_cmp (rec_hkey r) h = 0) tree)
                   | BTR_PROBE_GE \<Rightarrow>
                       (case hkey of None \<Rightarrow> None
                        | Some h \<Rightarrow> btr_first_index (\<lambda>r. 0 \<le> hkey_cmp (rec_hkey r) h) tree)
                   | BTR_PROBE_LE \<Rightarrow>
                       (case hkey of None \<Rightarrow> None
                        | Some h \<Rightarrow> btr_last_index (\<lambda>r. hkey_cmp (rec_hkey r) h \<le> 0) tree))
      in case found of None \<Rightarrow> (- DER_NONEXIST, None) | Some i \<Rightarrow> (0, Some i))"

definition dbtree_iter_next :: "btr_record list \<Rightarrow> nat option \<Rightarrow> int \<times> nat option" where
  "dbtree_iter_next tree cur =
     (case cur of
        None \<Rightarrow> (- DER_NONEXIST, None)
      | Some i \<Rightarrow> if Suc i < length tree then (0, Some (Suc i)) else (- DER_NONEXIST, None))"

definition dbtree_iter_fetch ::
  "vos_pool \<Rightarrow> nat option \<Rightarrow> byte list daos_iov \<Rightarrow> vc_val_buf daos_iov \<Rightarrow>
   byte list option \<Rightarrow> int \<times> vc_val_buf daos_iov \<times> byte list option" where
  "dbtree_iter_fetch vpool cur key val anchor =
     (case cur of
        None \<Rightarrow> (- DER_NONEXIST, val, anchor)
      | Some i \<Rightarrow>
          if i < length (vp_cont_ith vpool)
          then let rec = vp_cont_ith vpool ! i;
                   (rc, val') = vc_rec_fetch \<lparr>ti_umm = vp_umm vpool\<rparr> rec key val
               in (rc, val', map_option (\<lambda>_. rec_hkey rec) anchor)
          else (- DER_NONEXIST, val, anchor))"

text \<open>The iterator operations of this file. The pool behind \<^verbatim>\<open>cot_pool\<close> is looked up in
  the state; an iterator whose pool is gone reads freed memory.\<close>

definition vos_co_iter_fetch ::
  "vos_state \<Rightarrow> vos_co_iter \<Rightarrow> vos_iter_entry_t \<Rightarrow> byte list option \<Rightarrow>
   (int \<times> vos_iter_entry_t \<times> byte list option) outcome" where
  "vos_co_iter_fetch st iter it_entry anchor =
     (if it_type iter \<noteq> VOS_ITER_COUUID then Assert_Failed
      else
        let key = daos_iov_set (replicate sizeof_daos_uuid 0) sizeof_daos_uuid;
            val = daos_iov_set \<lparr>vc_co = UMMID_NULL, vc_vpool = 0\<rparr> sizeof_vc_val_buf;
            it_entry1 = it_entry\<lparr>ie_couuid := uuid_clear\<rparr>
        in case pools st (cot_pool iter) of
             None \<Rightarrow> Mem_Fault
           | Some vpool \<Rightarrow>
               let (rc, val', anchor') = dbtree_iter_fetch vpool (cot_hdl iter) key val anchor
               in if rc \<noteq> 0 then Normal (rc, it_entry1, anchor')
                  else if iov_len val' \<noteq> sizeof_vc_val_buf then Assert_Failed
                  else obind (container_at (vp_umm vpool) (vc_co (iov_buf val'))) (\<lambda>co.
                         Normal (rc, it_entry1\<lparr>ie_couuid := uuid_copy (vc_id co)\<rparr>, anchor')))"

definition vos_co_iter_next :: "vos_state \<Rightarrow> vos_co_iter \<Rightarrow> (int \<times> vos_co_iter) outcome" where
  "vos_co_iter_next st iter =
     (if it_type iter \<noteq> VOS_ITER_COUUID then Assert_Failed
      else case pools st (cot_pool iter) of
             None \<Rightarrow> Mem_Fault
           | Some vpool \<Rightarrow>
               let (rc, cur) = dbtree_iter_next (vp_cont_ith vpool) (cot_hdl iter)
               in Normal (rc, iter\<lparr>cot_hdl := cur\<rparr>))"

definition vos_co_iter_probe ::
  "vos_state \<Rightarrow> vos_co_iter \<Rightarrow> byte list option \<Rightarrow> (int \<times> vos_co_iter) outcome" where
  "vos_co_iter_probe st iter anchor =
     (if it_type iter \<noteq> VOS_ITER_COUUID then Assert_Failed
      else
        let opc = (if anchor = None then BTR_PROBE_FIRST else BTR_PROBE_GE)
        in case pools st (cot_pool iter) of
             None \<Rightarrow> Mem_Fault
           | Some vpool \<Rightarrow>
               let (rc, cur) = dbtree_iter_probe (vp_cont_ith vpool) opc None anchor
               in Normal (rc, iter\<lparr>cot_hdl := cur\<rparr>))"

section \<open>Example inputs\<close>

text \<open>Concrete inputs at which the theorems below are instantiated: an identifier,
  an empty durable memory, a pool holding one container (its record at address 1, its
  object index at address 2), and collaborators that always succeed, with an errno
  translation that goes by the abort cause and an abort handler that reads \<^verbatim>\<open>rc\<close> as
  the body wrote it.\<close>

abbreviation (input) ex_uuid :: uuid_t where
  "ex_uuid \<equiv> [1, 2, 3, 4, 5, 6, 7, 8, 9, 10, 11, 12, 13, 14, 15, 16]"

abbreviation (input) ex_umm0 :: umem_instance where
  "ex_umm0 \<equiv> \<lparr>um_heap = Map.empty, um_brk = 0, um_room = 0, um_log = []\<rparr>"

abbreviation (input) ex_umm1 :: umem_instance where
  "ex_umm1 \<equiv> \<lparr>um_heap = [1 \<mapsto> PContainer \<lparr>vc_id = ex_uuid, vc_obtable = 2, vc_info = 0\<rparr>,
                          2 \<mapsto> PObjIndex \<lparr>obtable = 0\<rparr>],
              um_brk = 2, um_room = 4, um_log = []\<rparr>"

abbreviation (input) ex_pool1 :: vos_pool where
  "ex_pool1 \<equiv> \<lparr>vp_umm = ex_umm1, vp_cont_ith = [\<lparr>rec_mmid = 1, rec_hkey = ex_uuid\<rparr>]\<rparr>"

abbreviation (input) ex_state1 :: vos_state where
  "ex_state1 \<equiv> \<lparr>pools = [1 \<mapsto> ex_pool1], hdl_mem = Map.empty, hdl_brk = 0,
                 uuid_hash = Map.empty\<rparr>"

abbreviation (input) ex_ext :: ext where
  "ex_ext \<equiv> \<lparr>vos_oi_create = (\<lambda>p oi. (0, oi)), vos_oi_destroy = (\<lambda>p oi. (0, oi)),
             umem_tx_errno = (\<lambda>err e. if e = ENOMEM then - DER_NOMEM else - DER_INVAL),
             rc_in_onabort = (\<lambda>old new. new), d_alloc_ok = True,
             dbtree_open_inplace_rc = 0\<rparr>"

abbreviation (input) ex_uuid2 :: uuid_t where
  "ex_uuid2 \<equiv> [9, 9, 9, 9, 9, 9, 9, 9, 9, 9, 9, 9, 9, 9, 9, 9]"

text \<open>A state in which the container of \<open>ex_pool1\<close> is open: one handle at DRAM address
  1 with one reference, registered in the UUID hash.\<close>

abbreviation (input) ex_hdl :: vc_hdl where
  "ex_hdl \<equiv> \<lparr>hdl_vc_id = ex_uuid, hdl_vc_pool = 1, hdl_vc_co = 1, hdl_vc_obj_table = 2,
             hdl_vc_btr_hdl = 2, hdl_ref = 1\<rparr>"

abbreviation (input) ex_state2 :: vos_state where
  "ex_state2 \<equiv> \<lparr>pools = [1 \<mapsto> ex_pool1], hdl_mem = [1 \<mapsto> ex_hdl], hdl_brk = 1,
                 uuid_hash = [ex_uuid \<mapsto> 1]\<rparr>"

text \<open>A pool whose container index holds three records, with digests that start with
  the bytes 1, 5 and 9.\<close>

abbreviation (input) ex_key :: "byte \<Rightarrow> uuid_t" where
  "ex_key b \<equiv> [b, 0, 0, 0, 0, 0, 0, 0, 0, 0, 0, 0, 0, 0, 0, 0]"

abbreviation (input) ex_pool3 :: vos_pool where
  "ex_pool3 \<equiv> \<lparr>vp_umm = ex_umm0,
               vp_cont_ith = [\<lparr>rec_mmid = 1, rec_hkey = ex_key 1\<rparr>,
                              \<lparr>rec_mmid = 3, rec_hkey = ex_key 5\<rparr>,
                              \<lparr>rec_mmid = 5, rec_hkey = ex_key 9\<rparr>]\<rparr>"

abbreviation (input) ex_state3 :: vos_state where
  "ex_state3 \<equiv> \<lparr>pools = [1 \<mapsto> ex_pool3], hdl_mem = Map.empty, hdl_brk = 0,
                 uuid_hash = Map.empty\<rparr>"

text \<open>A key, a value buffer and a fresh record as the tree engine hands them to
  \<open>vc_rec_alloc\<close>; collaborators whose object-index initializer fails; and the pool
  \<open>ex_pool1\<close> as a failed insert of \<open>ex_uuid2\<close> leaves it before the abort.\<close>

abbreviation (input) ex_key_iov :: "byte list daos_iov" where
  "ex_key_iov \<equiv> \<lparr>iov_buf = ex_uuid, iov_buf_len = 16, iov_len = 16\<rparr>"

abbreviation (input) ex_val_iov :: "vc_val_buf daos_iov" where
  "ex_val_iov \<equiv> \<lparr>iov_buf = \<lparr>vc_co = 0, vc_vpool = 1\<rparr>, iov_buf_len = 16, iov_len = 16\<rparr>"

abbreviation (input) ex_rec0 :: btr_record where
  "ex_rec0 \<equiv> \<lparr>rec_mmid = 0, rec_hkey = ex_uuid\<rparr>"

abbreviation (input) ex_ext_failing :: ext where
  "ex_ext_failing \<equiv>
     \<lparr>vos_oi_create = (\<lambda>p oi. (- DER_NOSPACE, oi)), vos_oi_destroy = (\<lambda>p oi. (0, oi)),
      umem_tx_errno = (\<lambda>err e. if e = ENOMEM then - DER_NOMEM else - DER_INVAL),
      rc_in_onabort = (\<lambda>old new. new), d_alloc_ok = True, dbtree_open_inplace_rc = 0\<rparr>"



section \<open>Properties\<close>

lemmas der_defs = DER_ERR_BASE_def DER_INVAL_def DER_EXIST_def DER_NONEXIST_def
  DER_NOSPACE_def DER_NOMEM_def DER_BUSY_def ENOMEM_def EFAULT_def

subsection \<open>Auxiliary facts\<close>

lemma DER_nonzero [simp]:
  "DER_NONEXIST \<noteq> 0" "DER_EXIST \<noteq> 0" "DER_NOMEM \<noteq> 0" "DER_BUSY \<noteq> 0" "DER_INVAL \<noteq> 0"
  by (simp_all add: der_defs)

lemma daos_iov_set_sel [simp]:
  "iov_buf (daos_iov_set b n) = b" "iov_len (daos_iov_set b n) = n"
  "iov_buf_len (daos_iov_set b n) = n"
  by (simp_all add: daos_iov_set_def)

lemma uuid_copy_ex [simp]: "uuid_copy ex_uuid = ex_uuid"
  by (simp add: uuid_copy_def sizeof_daos_uuid_def)

lemma uuid_copy_ex2 [simp]: "uuid_copy ex_uuid2 = ex_uuid2"
  by (simp add: uuid_copy_def sizeof_daos_uuid_def)

text \<open>What logging, the transaction brackets and a write to an object index leave
  unchanged.\<close>

lemma pool_log_sel [simp]:
  "vp_cont_ith (pool_log c v) = vp_cont_ith v"
  "um_heap (vp_umm (pool_log c v)) = um_heap (vp_umm v)"
  "um_log (vp_umm (pool_log c v)) = um_log (vp_umm v) @ [c]"
  by (simp_all add: pool_log_def log_call_def)

lemma tx_sel [simp]:
  "vp_cont_ith (tx_begin v) = vp_cont_ith v"
  "um_heap (vp_umm (tx_begin v)) = um_heap (vp_umm v)"
  "um_log (vp_umm (tx_begin v)) = um_log (vp_umm v) @ [Call_tx_begin]"
  "vp_cont_ith (tx_commit v) = vp_cont_ith v"
  "um_heap (vp_umm (tx_commit v)) = um_heap (vp_umm v)"
  "um_log (vp_umm (tx_commit v)) = um_log (vp_umm v) @ [Call_tx_commit]"
  by (simp_all add: tx_begin_def tx_commit_def)

lemma tx_abort_sel [simp]:
  "vp_cont_ith (tx_abort snap cur e) = vp_cont_ith snap"
  "um_heap (vp_umm (tx_abort snap cur e)) = um_heap (vp_umm snap)"
  "um_log (vp_umm (tx_abort snap cur e)) = um_log (vp_umm cur) @ [Call_tx_abort e]"
  by (simp_all add: tx_abort_def)

lemma set_object_index_sel [simp]:
  "um_heap (set_object_index umm a oi) = (um_heap umm)(a \<mapsto> PObjIndex oi)"
  "um_log (set_object_index umm a oi) = um_log umm"
  by (simp_all add: set_object_index_def)

text \<open>The digest of an identifier that the lifecycle operations pass down is the
  identifier itself.\<close>

lemma hkey_of_uuid:
  "vc_hkey_gen tins (daos_iov_set (uuid_copy u) sizeof_daos_uuid) = Normal (uuid_copy u)"
  by (simp add: vc_hkey_gen_def uuid_copy_def)

lemma tree_lookup_miss:
  "btr_find (uuid_copy u) (vp_cont_ith vpool) = None \<Longrightarrow>
   vos_co_tree_lookup vpool (uuid_copy u) sbuf =
     Normal (- DER_NONEXIST, pool_log (Call_dbtree_lookup (uuid_copy u)) vpool, sbuf)"
  by (simp add: vos_co_tree_lookup_def dbtree_lookup_def hkey_of_uuid pool_log_def Let_def)

lemma tree_lookup_hit:
  "btr_find (uuid_copy u) (vp_cont_ith vpool) = Some rec \<Longrightarrow>
   vos_co_tree_lookup vpool (uuid_copy u) sbuf =
     Normal (0, pool_log (Call_dbtree_lookup (uuid_copy u)) vpool, sbuf\<lparr>vc_co := rec_mmid rec\<rparr>)"
  by (simp add: vos_co_tree_lookup_def dbtree_lookup_def hkey_of_uuid pool_log_def
      vc_rec_fetch_def Let_def)

lemma btr_find_count:
  "btr_find h rs = Some r \<Longrightarrow> distinct (map rec_hkey rs) \<Longrightarrow>
   length (filter (\<lambda>q. rec_hkey q = h) rs) = 1"
proof (induction rs)
  case Nil
  then show ?case by simp
next
  case (Cons q qs)
  show ?case
  proof (cases "rec_hkey q = h")
    case True
    with Cons.prems(2) have "filter (\<lambda>q. rec_hkey q = h) qs = []"
      by (force simp: filter_empty_conv image_iff)
    with True show ?thesis by simp
  next
    case False
    with Cons show ?thesis by simp
  qed
qed

subsection \<open>The digests of the index stay pairwise different\<close>

text \<open>An insert adds a record only under a digest that the index does not hold, and a
  delete only removes records, so an index whose digests are pairwise different keeps
  that property.\<close>

lemma obind_eq_Normal:
  "obind m f = Normal y \<longleftrightarrow> (\<exists>v. m = Normal v \<and> f v = Normal y)"
  by (cases m) simp_all

lemma vc_rec_alloc_exit_rec:
  "vc_rec_alloc_exit rc tins val rec = Normal (rc', tins', val', rec') \<Longrightarrow> rec' = rec"
  by (auto simp: vc_rec_alloc_exit_def obind_eq_Normal split: if_splits)

lemma btr_find_None_iff: "btr_find h rs = None \<longleftrightarrow> h \<notin> rec_hkey ` set rs"
  by (induction rs) auto

lemma set_btr_insert: "set (btr_insert r rs) = insert r (set rs)"
  by (induction rs) auto

lemma distinct_btr_insert:
  "distinct (map rec_hkey rs) \<Longrightarrow> rec_hkey r \<notin> rec_hkey ` set rs \<Longrightarrow>
   distinct (map rec_hkey (btr_insert r rs))"
  by (induction rs) (auto simp: set_btr_insert)

lemma vc_rec_alloc_hkey:
  "vc_rec_alloc x tins key val rec = Normal (rc, tins', val', rec') \<Longrightarrow>
   rec_hkey rec' = rec_hkey rec"
  by (auto simp: vc_rec_alloc_def Let_def obind_eq_Normal split_beta
      split: if_splits dest!: vc_rec_alloc_exit_rec)

lemma dbtree_update_distinct:
  assumes "dbtree_update x vpool key val = Normal (rc, vpool', val')"
    and "distinct (map rec_hkey (vp_cont_ith vpool))"
  shows "distinct (map rec_hkey (vp_cont_ith vpool'))"
proof -
  let ?vpool1 = "\<lambda>hkey. pool_log (Call_dbtree_update hkey) vpool"
  from assms(1) obtain hkey where
    body: "(case btr_find hkey (vp_cont_ith vpool) of
             Some rec \<Rightarrow>
               Normal (vc_rec_update \<lparr>ti_umm = vp_umm (?vpool1 hkey)\<rparr> rec key val,
                       ?vpool1 hkey, val)
           | None \<Rightarrow>
               obind (vc_rec_alloc x \<lparr>ti_umm = vp_umm (?vpool1 hkey)\<rparr> key val
                        \<lparr>rec_mmid = UMMID_NULL, rec_hkey = hkey\<rparr>)
                 (\<lambda>(rc, tins', val', rec').
                    if rc \<noteq> 0 then Normal (rc, (?vpool1 hkey)\<lparr>vp_umm := ti_umm tins'\<rparr>, val')
                    else Normal (0, (?vpool1 hkey)\<lparr>vp_umm := ti_umm tins',
                                      vp_cont_ith := btr_insert rec'
                                                       (vp_cont_ith (?vpool1 hkey))\<rparr>,
                                 val')))
           = Normal (rc, vpool', val')"
    by (auto simp: dbtree_update_def Let_def obind_eq_Normal)
  show ?thesis
  proof (cases "btr_find hkey (vp_cont_ith vpool)")
    case (Some rec)
    with body have "vp_cont_ith vpool' = vp_cont_ith vpool"
      by auto
    with assms(2) show ?thesis by simp
  next
    case None
    with body have
      ob: "obind (vc_rec_alloc x \<lparr>ti_umm = vp_umm (?vpool1 hkey)\<rparr> key val
                        \<lparr>rec_mmid = UMMID_NULL, rec_hkey = hkey\<rparr>)
                 (\<lambda>(rc, tins', val', rec').
                    if rc \<noteq> 0 then Normal (rc, (?vpool1 hkey)\<lparr>vp_umm := ti_umm tins'\<rparr>, val')
                    else Normal (0, (?vpool1 hkey)\<lparr>vp_umm := ti_umm tins',
                                      vp_cont_ith := btr_insert rec'
                                                       (vp_cont_ith (?vpool1 hkey))\<rparr>,
                                 val'))
           = Normal (rc, vpool', val')"
      by simp
    from ob [unfolded obind_eq_Normal] obtain v where
      allocv: "vc_rec_alloc x \<lparr>ti_umm = vp_umm (?vpool1 hkey)\<rparr> key val
                \<lparr>rec_mmid = UMMID_NULL, rec_hkey = hkey\<rparr> = Normal v"
      and resv: "(case v of (rc, tins', val', rec') \<Rightarrow>
                    if rc \<noteq> 0 then Normal (rc, (?vpool1 hkey)\<lparr>vp_umm := ti_umm tins'\<rparr>, val')
                    else Normal (0, (?vpool1 hkey)\<lparr>vp_umm := ti_umm tins',
                                      vp_cont_ith := btr_insert rec'
                                                       (vp_cont_ith (?vpool1 hkey))\<rparr>,
                                 val')) = Normal (rc, vpool', val')"
      by blast
    obtain rc1 tins1 val1 rec1 where v: "v = (rc1, tins1, val1, rec1)"
      by (cases v)
    from allocv v have
      alloc: "vc_rec_alloc x \<lparr>ti_umm = vp_umm (?vpool1 hkey)\<rparr> key val
                \<lparr>rec_mmid = UMMID_NULL, rec_hkey = hkey\<rparr> = Normal (rc1, tins1, val1, rec1)"
      by simp
    from resv v have
      res: "(if rc1 \<noteq> 0 then Normal (rc1, (?vpool1 hkey)\<lparr>vp_umm := ti_umm tins1\<rparr>, val1)
                 else Normal (0, (?vpool1 hkey)\<lparr>vp_umm := ti_umm tins1,
                                   vp_cont_ith := btr_insert rec1 (vp_cont_ith vpool)\<rparr>,
                              val1)) = Normal (rc, vpool', val')"
      by (auto split: if_splits)
    from alloc have hk: "rec_hkey rec1 = hkey"
      by (auto dest: vc_rec_alloc_hkey)
    show ?thesis
    proof (cases "rc1 = 0")
      case True
      with res have "vp_cont_ith vpool' = btr_insert rec1 (vp_cont_ith vpool)"
        by auto
      with None hk assms(2) show ?thesis
        by (simp add: btr_find_None_iff distinct_btr_insert)
    next
      case False
      with res have "vp_cont_ith vpool' = vp_cont_ith vpool"
        by auto
      with assms(2) show ?thesis by simp
    qed
  qed
qed

lemma dbtree_delete_distinct:
  assumes "dbtree_delete vpool key = Normal (rc, vpool')"
    and "distinct (map rec_hkey (vp_cont_ith vpool))"
  shows "distinct (map rec_hkey (vp_cont_ith vpool'))"
  using assms
  by (auto simp: dbtree_delete_def Let_def obind_eq_Normal btr_remove_def distinct_map_filter
      split: option.splits if_splits)

subsection \<open>Duplicate create\<close>

text \<open>
  Claim C4. For every identifier already present in the container index of the pool,
  \<open>vos_co_create\<close> returns \<open>-DER_EXIST\<close>; the pool it leaves behind differs from the
  one it found only by the logged lookup, so the tree and the durable memory are the
  same, and the tree (whose digests are pairwise different) still holds exactly one
  record for the identifier.
\<close>

theorem vos_co_create_exists:
  assumes "vos_hdl2pool st poh = Some vpool"
    and "btr_find (uuid_copy u) (vp_cont_ith vpool) = Some rec"
    and "distinct (map rec_hkey (vp_cont_ith vpool))"
  shows "vos_co_create x st poh u =
           Normal (- DER_EXIST,
                   set_pool st poh (pool_log (Call_dbtree_lookup (uuid_copy u)) vpool)) \<and>
         vp_cont_ith (pool_log (Call_dbtree_lookup (uuid_copy u)) vpool) = vp_cont_ith vpool \<and>
         um_heap (vp_umm (pool_log (Call_dbtree_lookup (uuid_copy u)) vpool)) =
           um_heap (vp_umm vpool) \<and>
         length (filter (\<lambda>q. rec_hkey q = uuid_copy u) (vp_cont_ith vpool)) = 1"
  using assms
  by (simp add: vos_co_create_def tree_lookup_hit btr_find_count pool_log_def log_call_def)

theorem vos_co_create_exists_witness:
  "vos_co_create ex_ext ex_state1 1 ex_uuid =
     Normal (- DER_EXIST, set_pool ex_state1 1 (pool_log (Call_dbtree_lookup ex_uuid) ex_pool1)) \<and>
   length (filter (\<lambda>q. rec_hkey q = ex_uuid) (vp_cont_ith ex_pool1)) = 1"
proof -
  have a: "vos_hdl2pool ex_state1 1 = Some ex_pool1"
    by (simp add: vos_hdl2pool_def)
  have b: "btr_find (uuid_copy ex_uuid) (vp_cont_ith ex_pool1) =
             Some \<lparr>rec_mmid = 1, rec_hkey = ex_uuid\<rparr>"
    by simp
  have c: "distinct (map rec_hkey (vp_cont_ith ex_pool1))"
    by simp
  from vos_co_create_exists [OF a b c, of ex_ext] show ?thesis by simp
qed

subsection \<open>The key digest\<close>

text \<open>
  Claim C5, as the code has it. For every key whose buffer holds exactly \<open>iov_len\<close>
  bytes, \<open>vc_hkey_gen\<close> produces the raw bytes of the key as they are when the length
  is the size of an identifier; for any other length the assertion stops the process.
  The function has no return code, so there is no InvalidArgument result.
\<close>

theorem vc_hkey_gen_digest:
  "length (iov_buf k) = iov_len k \<Longrightarrow>
   vc_hkey_gen tins k =
     (if iov_len k = sizeof_daos_uuid then Normal (iov_buf k) else Assert_Failed)"
  by (simp add: vc_hkey_gen_def)

theorem vc_hkey_gen_digest_witness:
  "length (iov_buf (daos_iov_set ex_uuid 16)) = iov_len (daos_iov_set ex_uuid 16) \<and>
   vc_hkey_gen \<lparr>ti_umm = ex_umm0\<rparr> (daos_iov_set ex_uuid 16) = Normal ex_uuid"
  using vc_hkey_gen_digest [of "daos_iov_set ex_uuid 16" "\<lparr>ti_umm = ex_umm0\<rparr>"]
  by (simp add: sizeof_daos_uuid_def)

text \<open>
  Claim C5 as stated fails: a key of three bytes does not make the operation report
  InvalidArgument, it makes the assertion fail.
\<close>

theorem vc_hkey_gen_counterexample:
  "vc_hkey_gen \<lparr>ti_umm = ex_umm0\<rparr> \<lparr>iov_buf = [1, 2, 3], iov_buf_len = 3, iov_len = 3\<rparr>
     = Assert_Failed"
  by (simp add: vc_hkey_gen_def sizeof_daos_uuid_def)

subsection \<open>The fetch callback\<close>

text \<open>
  Claim C9. \<open>vc_rec_fetch\<close> is total: for every record it returns 0, stores the address
  of the durable container record in the view buffer (leaving the pool pointer of the
  view as it was), and sets the value length to the size of the view structure. The
  result does not depend on the durable memory: the record is not read, let alone
  copied.
\<close>

theorem vc_rec_fetch_view:
  "fst (vc_rec_fetch tins rec key_iov val_iov) = 0 \<and>
   vc_co (iov_buf (snd (vc_rec_fetch tins rec key_iov val_iov))) = rec_mmid rec \<and>
   vc_vpool (iov_buf (snd (vc_rec_fetch tins rec key_iov val_iov))) =
     vc_vpool (iov_buf val_iov) \<and>
   iov_len (snd (vc_rec_fetch tins rec key_iov val_iov)) = sizeof_vc_val_buf \<and>
   (\<forall>tins'. vc_rec_fetch tins' rec key_iov val_iov = vc_rec_fetch tins rec key_iov val_iov)"
  by (simp add: vc_rec_fetch_def)

subsection \<open>Iterator fetch\<close>

text \<open>
  Claim C10. Whenever \<open>vos_co_iter_fetch\<close> returns a non-zero code, the identifier of
  the output entry is the zero UUID, whatever the entry held before the call.
\<close>

theorem vos_co_iter_fetch_clears:
  "vos_co_iter_fetch st iter it_entry anchor = Normal (rc, it_entry', anchor') \<Longrightarrow> rc \<noteq> 0 \<Longrightarrow>
   ie_couuid it_entry' = uuid_clear"
  by (auto simp: vos_co_iter_fetch_def Let_def container_at_def
      split: if_splits option.splits prod.splits pobj.splits)

theorem vos_co_iter_fetch_clears_witness:
  "vos_co_iter_fetch ex_state1 \<lparr>it_type = VOS_ITER_COUUID, cot_hdl = None, cot_pool = 1\<rparr>
     \<lparr>ie_couuid = ex_uuid\<rparr> None = Normal (- DER_NONEXIST, \<lparr>ie_couuid = uuid_clear\<rparr>, None) \<and>
   - DER_NONEXIST \<noteq> 0 \<and>
   ie_couuid \<lparr>ie_couuid = uuid_clear\<rparr> = uuid_clear"
proof -
  have f: "vos_co_iter_fetch ex_state1
             \<lparr>it_type = VOS_ITER_COUUID, cot_hdl = None, cot_pool = 1\<rparr>
             \<lparr>ie_couuid = ex_uuid\<rparr> None =
           Normal (- DER_NONEXIST, \<lparr>ie_couuid = uuid_clear\<rparr>, None)"
    by (simp add: vos_co_iter_fetch_def dbtree_iter_fetch_def Let_def)
  have nz: "- DER_NONEXIST \<noteq> 0"
    by simp
  from vos_co_iter_fetch_clears [OF f nz] f nz show ?thesis by simp
qed

subsection \<open>Destroy refused\<close>

text \<open>What the handle cache does on a hit and on a miss, and that a release undoes the
  reference a lookup took.\<close>

lemma lookup_handle_hit:
  "uuid_hash st k = Some p \<Longrightarrow> hdl_mem st p = Some h \<Longrightarrow>
   vos_co_lookup_handle st k =
     Normal (0, Some p, st\<lparr>hdl_mem := (hdl_mem st)(p \<mapsto> h\<lparr>hdl_ref := hdl_ref h + 1\<rparr>)\<rparr>)"
  by (simp add: vos_co_lookup_handle_def)

lemma lookup_handle_miss:
  "uuid_hash st k = None \<Longrightarrow> vos_co_lookup_handle st k = Normal (- DER_NONEXIST, None, st)"
  by (simp add: vos_co_lookup_handle_def)

lemma putref_after_lookup:
  "hdl_mem st p = Some h \<Longrightarrow>
   vos_co_putref_handle (st\<lparr>hdl_mem := (hdl_mem st)(p \<mapsto> h\<lparr>hdl_ref := Suc (hdl_ref h)\<rparr>)\<rparr>) (Some p)
     = Normal st"
  by (simp add: vos_co_putref_handle_def map_upd_triv)

text \<open>
  Claim C2. In a pool that resolves: when the handle cache has an entry for the
  identifier, the lookup takes a reference and \<open>vos_co_destroy\<close> returns \<open>-DER_BUSY\<close>
  in the state it started from, so the reference is released again and nothing is
  mutated; when the cache has no entry and the container index has no record for the
  identifier, it returns \<open>-DER_NONEXIST\<close> and the pool differs from the one it found
  only by the logged lookup: the tree and the durable memory are not mutated.
\<close>

theorem vos_co_destroy_refused:
  assumes "vos_hdl2pool st poh = Some vpool"
  shows "(uuid_hash st (uuid_copy u) = Some p \<and> hdl_mem st p = Some h \<longrightarrow>
            vos_co_lookup_handle st (uuid_copy u) =
              Normal (0, Some p,
                      st\<lparr>hdl_mem := (hdl_mem st)(p \<mapsto> h\<lparr>hdl_ref := hdl_ref h + 1\<rparr>)\<rparr>) \<and>
            vos_co_destroy x st poh u = Normal (- DER_BUSY, st)) \<and>
         (uuid_hash st (uuid_copy u) = None \<and>
          btr_find (uuid_copy u) (vp_cont_ith vpool) = None \<longrightarrow>
            vos_co_destroy x st poh u =
              Normal (- DER_NONEXIST,
                      set_pool st poh
                        (vpool\<lparr>vp_umm := (vp_umm vpool)
                                 \<lparr>um_log := um_log (vp_umm vpool) @
                                            [Call_dbtree_lookup (uuid_copy u)]\<rparr>\<rparr>)))"
proof (intro conjI impI)
  assume a: "uuid_hash st (uuid_copy u) = Some p \<and> hdl_mem st p = Some h"
  then show "vos_co_lookup_handle st (uuid_copy u) =
              Normal (0, Some p,
                      st\<lparr>hdl_mem := (hdl_mem st)(p \<mapsto> h\<lparr>hdl_ref := hdl_ref h + 1\<rparr>)\<rparr>)"
    by (simp add: lookup_handle_hit)
  from a assms show "vos_co_destroy x st poh u = Normal (- DER_BUSY, st)"
    by (simp add: vos_co_destroy_def lookup_handle_hit putref_after_lookup)
next
  assume b: "uuid_hash st (uuid_copy u) = None \<and>
             btr_find (uuid_copy u) (vp_cont_ith vpool) = None"
  with assms show "vos_co_destroy x st poh u =
              Normal (- DER_NONEXIST,
                      set_pool st poh
                        (vpool\<lparr>vp_umm := (vp_umm vpool)
                                 \<lparr>um_log := um_log (vp_umm vpool) @
                                            [Call_dbtree_lookup (uuid_copy u)]\<rparr>\<rparr>))"
    by (simp add: vos_co_destroy_def lookup_handle_miss tree_lookup_miss pool_log_def
        log_call_def)
qed

theorem vos_co_destroy_refused_witness:
  "vos_co_destroy ex_ext ex_state2 1 ex_uuid = Normal (- DER_BUSY, ex_state2) \<and>
   vos_co_destroy ex_ext ex_state1 1 ex_uuid2 =
     Normal (- DER_NONEXIST,
             set_pool ex_state1 1
               (ex_pool1\<lparr>vp_umm := ex_umm1\<lparr>um_log := [Call_dbtree_lookup ex_uuid2]\<rparr>\<rparr>))"
proof -
  have a: "vos_hdl2pool ex_state2 1 = Some ex_pool1"
    by (simp add: vos_hdl2pool_def)
  have b: "vos_hdl2pool ex_state1 1 = Some ex_pool1"
    by (simp add: vos_hdl2pool_def)
  from vos_co_destroy_refused [OF a, of ex_uuid 1 ex_hdl ex_ext]
       vos_co_destroy_refused [OF b, of ex_uuid2 1 ex_hdl ex_ext]
  show ?thesis by simp
qed

subsection \<open>Open on a cached handle\<close>

text \<open>
  Claim C6. For every identifier with an entry in the handle cache, \<open>vos_co_open\<close>
  returns 0 and the handle of that entry, whose reference count is one higher; the
  pools are exactly as before: no lookup is logged against the container index and
  nothing durable changes.
\<close>

theorem vos_co_open_cache_hit:
  assumes "vos_hdl2pool st poh = Some vpool"
    and "uuid_hash st (uuid_copy u) = Some p"
    and "hdl_mem st p = Some h"
  shows "vos_co_open x st poh u =
           Normal (0, st\<lparr>hdl_mem := (hdl_mem st)(p \<mapsto> h\<lparr>hdl_ref := hdl_ref h + 1\<rparr>)\<rparr>,
                   Some (vos_co2hdl p)) \<and>
         pools (st\<lparr>hdl_mem := (hdl_mem st)(p \<mapsto> h\<lparr>hdl_ref := hdl_ref h + 1\<rparr>)\<rparr>) = pools st"
  using assms
  by (simp add: vos_co_open_def lookup_handle_hit vos_co_open_exit_def)

theorem vos_co_open_cache_hit_witness:
  "vos_co_open ex_ext ex_state2 1 ex_uuid =
     Normal (0, ex_state2\<lparr>hdl_mem := [1 \<mapsto> ex_hdl\<lparr>hdl_ref := 2\<rparr>]\<rparr>, Some 1)"
proof -
  have a: "vos_hdl2pool ex_state2 1 = Some ex_pool1"
    by (simp add: vos_hdl2pool_def)
  have b: "uuid_hash ex_state2 (uuid_copy ex_uuid) = Some 1"
    by simp
  have c: "hdl_mem ex_state2 1 = Some ex_hdl"
    by simp
  from vos_co_open_cache_hit [OF a b c, of ex_ext] show ?thesis
    by (simp add: vos_co2hdl_def numeral_2_eq_2)
qed

subsection \<open>Iterator probe\<close>

text \<open>The index search of the tree model returns the first position that satisfies the
  predicate.\<close>

lemma btr_first_index_Some_iff:
  "btr_first_index P rs = Some i \<longleftrightarrow> i < length rs \<and> P (rs ! i) \<and> (\<forall>j<i. \<not> P (rs ! j))"
proof (induction rs arbitrary: i)
  case Nil
  then show ?case by simp
next
  case (Cons r rs)
  show ?case
  proof (cases "P r")
    case True
    then show ?thesis by (cases i) auto
  next
    case False
    show ?thesis
    proof (cases i)
      case 0
      with False show ?thesis by simp
    next
      case (Suc k)
      have "(\<forall>j<Suc k. \<not> P ((r # rs) ! j)) \<longleftrightarrow> (\<forall>j<k. \<not> P (rs ! j))"
        using False by (auto simp: less_Suc_eq_0_disj)
      with Suc False Cons.IH [of k] show ?thesis by auto
    qed
  qed
qed

text \<open>
  Claim C7. For an iterator of the container type over a pool that resolves: a probe
  without anchor puts the cursor on the first record of a non-empty index, and a probe
  with an anchor puts it on position \<open>i\<close> whenever \<open>i\<close> is the first position whose
  digest is greater than or equal to the anchor. The result is a function of the index
  and the anchor alone.
\<close>

theorem vos_co_iter_probe_position:
  assumes "it_type iter = VOS_ITER_COUUID"
    and "pools st (cot_pool iter) = Some vpool"
  shows "(vp_cont_ith vpool \<noteq> [] \<longrightarrow>
            vos_co_iter_probe st iter None = Normal (0, iter\<lparr>cot_hdl := Some 0\<rparr>)) \<and>
         (i < length (vp_cont_ith vpool) \<and>
          0 \<le> hkey_cmp (rec_hkey (vp_cont_ith vpool ! i)) a \<and>
          (\<forall>j<i. hkey_cmp (rec_hkey (vp_cont_ith vpool ! j)) a < 0) \<longrightarrow>
            vos_co_iter_probe st iter (Some a) = Normal (0, iter\<lparr>cot_hdl := Some i\<rparr>))"
proof (intro conjI impI)
  assume "vp_cont_ith vpool \<noteq> []"
  then have "btr_first_index (\<lambda>r. True) (vp_cont_ith vpool) = Some 0"
    by (cases "vp_cont_ith vpool") simp_all
  with assms show "vos_co_iter_probe st iter None = Normal (0, iter\<lparr>cot_hdl := Some 0\<rparr>)"
    by (simp add: vos_co_iter_probe_def dbtree_iter_probe_def)
next
  assume h: "i < length (vp_cont_ith vpool) \<and>
          0 \<le> hkey_cmp (rec_hkey (vp_cont_ith vpool ! i)) a \<and>
          (\<forall>j<i. hkey_cmp (rec_hkey (vp_cont_ith vpool ! j)) a < 0)"
  then have "btr_first_index (\<lambda>r. 0 \<le> hkey_cmp (rec_hkey r) a) (vp_cont_ith vpool) = Some i"
    by (simp add: btr_first_index_Some_iff not_le)
  with assms show "vos_co_iter_probe st iter (Some a) = Normal (0, iter\<lparr>cot_hdl := Some i\<rparr>)"
    by (simp add: vos_co_iter_probe_def dbtree_iter_probe_def)
qed

theorem vos_co_iter_probe_position_witness:
  "vos_co_iter_probe ex_state3 \<lparr>it_type = VOS_ITER_COUUID, cot_hdl = None, cot_pool = 1\<rparr> None
     = Normal (0, \<lparr>it_type = VOS_ITER_COUUID, cot_hdl = Some 0, cot_pool = 1\<rparr>) \<and>
   vos_co_iter_probe ex_state3 \<lparr>it_type = VOS_ITER_COUUID, cot_hdl = None, cot_pool = 1\<rparr>
     (Some (ex_key 3))
     = Normal (0, \<lparr>it_type = VOS_ITER_COUUID, cot_hdl = Some 1, cot_pool = 1\<rparr>)"
proof -
  have a: "it_type \<lparr>it_type = VOS_ITER_COUUID, cot_hdl = None, cot_pool = 1\<rparr> = VOS_ITER_COUUID"
    by simp
  have b: "pools ex_state3 (cot_pool \<lparr>it_type = VOS_ITER_COUUID, cot_hdl = None, cot_pool = 1\<rparr>)
             = Some ex_pool3"
    by simp
  from vos_co_iter_probe_position [OF a b, of 1 "ex_key 3"] show ?thesis
    by simp
qed

subsection \<open>Failure inside allocate-on-insert\<close>

text \<open>
  Claim C1, evaluated on the code. The record reaches \<open>vc_rec_alloc\<close> with a null
  \<open>rec_mmid\<close>, which is assigned only after every step has succeeded. When the
  allocation of the object index fails (room for one allocation), and when the
  initializer \<open>vos_oi_create\<close> fails (room for two), the code is propagated, but the
  call of \<open>vc_rec_free\<close> at the exit label frees nothing: the container record, and in
  the second case the object index too, are still allocated when the callback returns,
  and no free is logged.
\<close>

theorem vc_rec_alloc_failure_leaks:
  "vc_rec_alloc ex_ext \<lparr>ti_umm = ex_umm0\<lparr>um_room := 1\<rparr>\<rparr> ex_key_iov ex_val_iov ex_rec0 =
     Normal (- DER_NOMEM,
             \<lparr>ti_umm = \<lparr>um_heap = [1 \<mapsto> PContainer \<lparr>vc_id = ex_uuid, vc_obtable = 0, vc_info = 0\<rparr>],
                        um_brk = 1, um_room = 0, um_log = [Call_znew 1]\<rparr>\<rparr>,
             ex_val_iov\<lparr>iov_buf := \<lparr>vc_co = 1, vc_vpool = 1\<rparr>\<rparr>, ex_rec0) \<and>
   vc_rec_alloc ex_ext_failing
       \<lparr>ti_umm = ex_umm0\<lparr>um_room := 2\<rparr>\<rparr> ex_key_iov ex_val_iov ex_rec0 =
     Normal (- DER_NOSPACE,
             \<lparr>ti_umm = \<lparr>um_heap = [1 \<mapsto> PContainer \<lparr>vc_id = ex_uuid, vc_obtable = 2, vc_info = 0\<rparr>,
                                   2 \<mapsto> PObjIndex \<lparr>obtable = 0\<rparr>],
                        um_brk = 2, um_room = 0,
                        um_log = [Call_znew 1, Call_znew 2, Call_oi_create 2]\<rparr>\<rparr>,
             ex_val_iov\<lparr>iov_buf := \<lparr>vc_co = 1, vc_vpool = 1\<rparr>\<rparr>, ex_rec0)"
  by (simp add: vc_rec_alloc_def vc_rec_alloc_exit_def vc_rec_free_def umem_znew_def
      set_container_def set_object_index_def object_index_at_def log_call_def
      zero_container_def zero_object_index_def UMMID_NULL_def sizeof_daos_uuid_def
      uuid_copy_def DER_NOSPACE_def DER_ERR_BASE_def Let_def numeral_2_eq_2)

text \<open>The same for every durable memory with room for two allocations and every
  failing initializer: the code of the initializer is returned, both objects allocated
  during the call are still present, and the calls made are the two allocations and the
  initializer.\<close>

lemma vc_rec_alloc_init_failure:
  assumes "iov_len key = sizeof_daos_uuid"
    and "rec_mmid rec = UMMID_NULL"
    and "2 \<le> um_room (ti_umm tins)"
    and "vos_oi_create x (vc_vpool (iov_buf val)) zero_object_index = (rc, oi')"
    and "rc \<noteq> 0"
  shows "\<exists>tins' val'.
           vc_rec_alloc x tins key val rec = Normal (rc, tins', val', rec) \<and>
           um_heap (ti_umm tins') (Suc (um_brk (ti_umm tins))) \<noteq> None \<and>
           um_heap (ti_umm tins') (Suc (Suc (um_brk (ti_umm tins)))) \<noteq> None \<and>
           um_log (ti_umm tins') =
             um_log (ti_umm tins) @
               [Call_znew (Suc (um_brk (ti_umm tins))),
                Call_znew (Suc (Suc (um_brk (ti_umm tins)))),
                Call_oi_create (Suc (Suc (um_brk (ti_umm tins))))]"
  using assms
  by (auto simp: vc_rec_alloc_def vc_rec_alloc_exit_def vc_rec_free_def umem_znew_def
      set_container_def set_object_index_def object_index_at_def log_call_def
      UMMID_NULL_def Let_def)

subsection \<open>The free callback\<close>

text \<open>
  Claim C3 as stated fails: on the record of the pool with one container,
  \<open>vc_rec_free\<close> releases the object index and the container record and returns 0,
  and the finalizer of the object index is not among the calls it makes.
\<close>

theorem vc_rec_free_counterexample:
  "vc_rec_free \<lparr>ti_umm = ex_umm1\<rparr> \<lparr>rec_mmid = 1, rec_hkey = ex_uuid\<rparr> =
     Normal (0, \<lparr>ti_umm = \<lparr>um_heap = Map.empty, um_brk = 2, um_room = 4,
                            um_log = [Call_free 2, Call_free 1]\<rparr>\<rparr>) \<and>
   Call_oi_destroy 2 \<notin> set [Call_free 2, Call_free 1]"
  by (simp add: vc_rec_free_def container_at_def umem_free_def UMMID_NULL_def Let_def)

lemma vc_rec_free_null:
  "rec_mmid rec = UMMID_NULL \<Longrightarrow> vc_rec_free tins rec = Normal (- DER_NONEXIST, tins)"
  by (simp add: vc_rec_free_def)

lemma vc_rec_free_ok:
  assumes "rec_mmid rec \<noteq> UMMID_NULL"
    and "um_heap (ti_umm tins) (rec_mmid rec) = Some (PContainer c)"
    and "vc_obtable c \<noteq> UMMID_NULL"
    and "vc_obtable c \<noteq> rec_mmid rec"
    and "um_heap (ti_umm tins) (vc_obtable c) = Some ob"
  shows "vc_rec_free tins rec =
           Normal (0, tins\<lparr>ti_umm := (ti_umm tins)
                     \<lparr>um_heap := (um_heap (ti_umm tins))(vc_obtable c := None, rec_mmid rec := None),
                      um_log := um_log (ti_umm tins) @
                                [Call_free (vc_obtable c), Call_free (rec_mmid rec)]\<rparr>\<rparr>)"
  using assms
  by (simp add: vc_rec_free_def container_at_def umem_free_def Let_def)

lemma dbtree_delete_hit:
  assumes "btr_find (uuid_copy u) (vp_cont_ith vpool) = Some rec"
    and "rec_mmid rec \<noteq> UMMID_NULL"
    and "um_heap (vp_umm vpool) (rec_mmid rec) = Some (PContainer c)"
    and "vc_obtable c \<noteq> UMMID_NULL"
    and "vc_obtable c \<noteq> rec_mmid rec"
    and "um_heap (vp_umm vpool) (vc_obtable c) = Some ob"
  shows "dbtree_delete vpool (daos_iov_set (uuid_copy u) sizeof_daos_uuid) =
           Normal (0, vpool\<lparr>vp_umm := (vp_umm vpool)
                     \<lparr>um_heap := (um_heap (vp_umm vpool))(vc_obtable c := None, rec_mmid rec := None),
                      um_log := um_log (vp_umm vpool) @
                                [Call_dbtree_delete (uuid_copy u),
                                 Call_free (vc_obtable c), Call_free (rec_mmid rec)]\<rparr>,
                     vp_cont_ith := btr_remove (uuid_copy u) (vp_cont_ith vpool)\<rparr>)"
proof -
  let ?vpool1 = "pool_log (Call_dbtree_delete (uuid_copy u)) vpool"
  have free: "vc_rec_free \<lparr>ti_umm = vp_umm ?vpool1\<rparr> rec =
           Normal (0, \<lparr>ti_umm = (vp_umm ?vpool1)
                     \<lparr>um_heap := (um_heap (vp_umm ?vpool1))(vc_obtable c := None, rec_mmid rec := None),
                      um_log := um_log (vp_umm ?vpool1) @
                                [Call_free (vc_obtable c), Call_free (rec_mmid rec)]\<rparr>\<rparr>)"
    using assms(2-6)
      vc_rec_free_ok [of rec "\<lparr>ti_umm = vp_umm ?vpool1\<rparr>" c ob]
    by (simp add: pool_log_def log_call_def)
  show ?thesis
    using assms(1)
    by (simp add: dbtree_delete_def hkey_of_uuid Let_def free)
       (cases vpool, simp add: pool_log_def log_call_def)
qed

text \<open>
  Claim C3, as the code has it. The free callback fails with \<open>-DER_NONEXIST\<close> on a
  null record address. On the address of a container record that links an object
  index it releases the storage of the object index, then the storage of the
  container record, and returns 0; it makes no other call. The finalizer
  \<open>vos_oi_destroy\<close> is invoked by \<open>vos_co_destroy\<close> itself, inside the transaction and
  before the delete from the container index that triggers the callback: when the
  finalizer succeeds, the calls of a destroy are lookup, begin, finalizer, delete, free
  of the object index, free of the record, commit.
\<close>

theorem vc_rec_free_releases:
  "(rec_mmid rec = UMMID_NULL \<longrightarrow> vc_rec_free tins rec = Normal (- DER_NONEXIST, tins)) \<and>
   (rec_mmid rec \<noteq> UMMID_NULL \<and>
    um_heap (ti_umm tins) (rec_mmid rec) = Some (PContainer c) \<and>
    vc_obtable c \<noteq> UMMID_NULL \<and> vc_obtable c \<noteq> rec_mmid rec \<and>
    um_heap (ti_umm tins) (vc_obtable c) = Some ob \<longrightarrow>
      vc_rec_free tins rec =
        Normal (0, tins\<lparr>ti_umm := (ti_umm tins)
                  \<lparr>um_heap := (um_heap (ti_umm tins))(vc_obtable c := None, rec_mmid rec := None),
                   um_log := um_log (ti_umm tins) @
                             [Call_free (vc_obtable c), Call_free (rec_mmid rec)]\<rparr>\<rparr>)) \<and>
   (vos_hdl2pool st poh = Some vpool \<and>
    uuid_hash st (uuid_copy u) = None \<and>
    btr_find (uuid_copy u) (vp_cont_ith vpool) = Some r \<and>
    rec_mmid r \<noteq> UMMID_NULL \<and>
    um_heap (vp_umm vpool) (rec_mmid r) = Some (PContainer co) \<and>
    vc_obtable co \<noteq> UMMID_NULL \<and> vc_obtable co \<noteq> rec_mmid r \<and>
    um_heap (vp_umm vpool) (vc_obtable co) = Some (PObjIndex oi) \<and>
    vos_oi_destroy x poh oi = (0, oi') \<longrightarrow>
      vos_co_destroy x st poh u =
        Normal (0, set_pool st poh
                  (vpool\<lparr>vp_umm := (vp_umm vpool)
                     \<lparr>um_heap := (um_heap (vp_umm vpool))
                                   (vc_obtable co := None, rec_mmid r := None),
                      um_log := um_log (vp_umm vpool) @
                                [Call_dbtree_lookup (uuid_copy u), Call_tx_begin,
                                 Call_oi_destroy (vc_obtable co),
                                 Call_dbtree_delete (uuid_copy u),
                                 Call_free (vc_obtable co), Call_free (rec_mmid r),
                                 Call_tx_commit]\<rparr>,
                     vp_cont_ith := btr_remove (uuid_copy u) (vp_cont_ith vpool)\<rparr>)))"
proof (intro conjI impI)
  assume "rec_mmid rec = UMMID_NULL"
  then show "vc_rec_free tins rec = Normal (- DER_NONEXIST, tins)"
    by (rule vc_rec_free_null)
next
  assume "rec_mmid rec \<noteq> UMMID_NULL \<and>
    um_heap (ti_umm tins) (rec_mmid rec) = Some (PContainer c) \<and>
    vc_obtable c \<noteq> UMMID_NULL \<and> vc_obtable c \<noteq> rec_mmid rec \<and>
    um_heap (ti_umm tins) (vc_obtable c) = Some ob"
  then show "vc_rec_free tins rec =
        Normal (0, tins\<lparr>ti_umm := (ti_umm tins)
                  \<lparr>um_heap := (um_heap (ti_umm tins))(vc_obtable c := None, rec_mmid rec := None),
                   um_log := um_log (ti_umm tins) @
                             [Call_free (vc_obtable c), Call_free (rec_mmid rec)]\<rparr>\<rparr>)"
    by (simp add: vc_rec_free_ok)
next
  assume h: "vos_hdl2pool st poh = Some vpool \<and>
    uuid_hash st (uuid_copy u) = None \<and>
    btr_find (uuid_copy u) (vp_cont_ith vpool) = Some r \<and>
    rec_mmid r \<noteq> UMMID_NULL \<and>
    um_heap (vp_umm vpool) (rec_mmid r) = Some (PContainer co) \<and>
    vc_obtable co \<noteq> UMMID_NULL \<and> vc_obtable co \<noteq> rec_mmid r \<and>
    um_heap (vp_umm vpool) (vc_obtable co) = Some (PObjIndex oi) \<and>
    vos_oi_destroy x poh oi = (0, oi')"
  let ?k = "uuid_copy u"
  let ?vpool2 = "tx_begin (pool_log (Call_dbtree_lookup ?k) vpool)"
  let ?vpool3 = "pool_log (Call_oi_destroy (vc_obtable co))
                   (?vpool2\<lparr>vp_umm := set_object_index (vp_umm ?vpool2) (vc_obtable co) oi'\<rparr>)"
  have del: "dbtree_delete ?vpool3 (daos_iov_set ?k sizeof_daos_uuid) =
           Normal (0, ?vpool3\<lparr>vp_umm := (vp_umm ?vpool3)
                     \<lparr>um_heap := (um_heap (vp_umm ?vpool3))(vc_obtable co := None, rec_mmid r := None),
                      um_log := um_log (vp_umm ?vpool3) @
                                [Call_dbtree_delete ?k,
                                 Call_free (vc_obtable co), Call_free (rec_mmid r)]\<rparr>,
                     vp_cont_ith := btr_remove ?k (vp_cont_ith ?vpool3)\<rparr>)"
    using h by (intro dbtree_delete_hit [where c = co and ob = "PObjIndex oi'"])
               simp_all
  have c2: "container_at (vp_umm ?vpool2) (rec_mmid r) = Normal co"
    using h by (simp add: container_at_def)
  have o2: "object_index_at (vp_umm ?vpool2) (vc_obtable co) = Normal oi"
    using h by (simp add: object_index_at_def)
  show "vos_co_destroy x st poh u =
        Normal (0, set_pool st poh
                  (vpool\<lparr>vp_umm := (vp_umm vpool)
                     \<lparr>um_heap := (um_heap (vp_umm vpool))
                                   (vc_obtable co := None, rec_mmid r := None),
                      um_log := um_log (vp_umm vpool) @
                                [Call_dbtree_lookup (uuid_copy u), Call_tx_begin,
                                 Call_oi_destroy (vc_obtable co),
                                 Call_dbtree_delete (uuid_copy u),
                                 Call_free (vc_obtable co), Call_free (rec_mmid r),
                                 Call_tx_commit]\<rparr>,
                     vp_cont_ith := btr_remove (uuid_copy u) (vp_cont_ith vpool)\<rparr>))"
    using h
    by (simp add: vos_co_destroy_def lookup_handle_miss tree_lookup_hit c2 o2 del Let_def)
       (cases vpool,
        simp add: pool_log_def tx_begin_def tx_commit_def log_call_def set_object_index_def)
qed

theorem vc_rec_free_releases_witness:
  "vc_rec_free \<lparr>ti_umm = ex_umm1\<rparr> ex_rec0 = Normal (- DER_NONEXIST, \<lparr>ti_umm = ex_umm1\<rparr>) \<and>
   vc_rec_free \<lparr>ti_umm = ex_umm1\<rparr> \<lparr>rec_mmid = 1, rec_hkey = ex_uuid\<rparr> =
     Normal (0, \<lparr>ti_umm = ex_umm1\<lparr>um_heap := (um_heap ex_umm1)(2 := None, 1 := None),
                                    um_log := [Call_free 2, Call_free 1]\<rparr>\<rparr>) \<and>
   vos_co_destroy ex_ext ex_state1 1 ex_uuid =
     Normal (0, set_pool ex_state1 1
                  (ex_pool1\<lparr>vp_umm := ex_umm1
                     \<lparr>um_heap := (um_heap ex_umm1)(2 := None, 1 := None),
                      um_log := [Call_dbtree_lookup ex_uuid, Call_tx_begin, Call_oi_destroy 2,
                                 Call_dbtree_delete ex_uuid, Call_free 2, Call_free 1,
                                 Call_tx_commit]\<rparr>,
                     vp_cont_ith := []\<rparr>))"
proof -
  note t = vc_rec_free_releases
  have a: "vc_rec_free \<lparr>ti_umm = ex_umm1\<rparr> ex_rec0 = Normal (- DER_NONEXIST, \<lparr>ti_umm = ex_umm1\<rparr>)"
    using t [where rec = ex_rec0 and tins = "\<lparr>ti_umm = ex_umm1\<rparr>"]
    by (simp add: UMMID_NULL_def)
  have b: "vc_rec_free \<lparr>ti_umm = ex_umm1\<rparr> \<lparr>rec_mmid = 1, rec_hkey = ex_uuid\<rparr> =
     Normal (0, \<lparr>ti_umm = ex_umm1\<lparr>um_heap := (um_heap ex_umm1)(2 := None, 1 := None),
                                    um_log := [Call_free 2, Call_free 1]\<rparr>\<rparr>)"
    using t [where rec = "\<lparr>rec_mmid = 1, rec_hkey = ex_uuid\<rparr>" and tins = "\<lparr>ti_umm = ex_umm1\<rparr>"
               and c = "\<lparr>vc_id = ex_uuid, vc_obtable = 2, vc_info = 0\<rparr>"
               and ob = "PObjIndex \<lparr>obtable = 0\<rparr>"]
    by (simp add: UMMID_NULL_def)
  have c: "vos_co_destroy ex_ext ex_state1 1 ex_uuid =
     Normal (0, set_pool ex_state1 1
                  (ex_pool1\<lparr>vp_umm := ex_umm1
                     \<lparr>um_heap := (um_heap ex_umm1)(2 := None, 1 := None),
                      um_log := [Call_dbtree_lookup ex_uuid, Call_tx_begin, Call_oi_destroy 2,
                                 Call_dbtree_delete ex_uuid, Call_free 2, Call_free 1,
                                 Call_tx_commit]\<rparr>,
                     vp_cont_ith := []\<rparr>))"
    using t [where st = ex_state1 and poh = 1 and vpool = ex_pool1 and u = ex_uuid
               and r = "\<lparr>rec_mmid = 1, rec_hkey = ex_uuid\<rparr>"
               and co = "\<lparr>vc_id = ex_uuid, vc_obtable = 2, vc_info = 0\<rparr>"
               and oi = "\<lparr>obtable = 0\<rparr>" and x = ex_ext and oi' = "\<lparr>obtable = 0\<rparr>"]
    by (simp add: UMMID_NULL_def vos_hdl2pool_def btr_remove_def)
  from a b c show ?thesis by blast
qed

subsection \<open>Failing insert in create\<close>






end
